theory Spec2Isabelle
  imports Main
begin

section \<open>Python values and the built-ins the script calls\<close>

text \<open>
  The script \<^verbatim>\<open>Bleu Score/Bleu_rouge_scores.py\<close> handles strings and (nested) lists of
  strings only, so these are the values of the model. A character is a code point in
  the range 0 to 255; what \<^verbatim>\<open>repr\<close> does beyond that range is outside the model.
\<close>

datatype pyval = PStr string | PList "pyval list"

text \<open>\<^verbatim>\<open>sep.join(parts)\<close> on strings.\<close>

fun join_str :: "string \<Rightarrow> string list \<Rightarrow> string" where
  "join_str sep [] = []"
| "join_str sep [x] = x"
| "join_str sep (x # y # ys) = x @ sep @ join_str sep (y # ys)"

text \<open>
  \<^verbatim>\<open>repr\<close> of a string, as CPython writes it: the quote is the single quote unless the
  string holds a single quote and no double quote; the quote and the backslash are
  escaped, tab, newline and carriage return get their letter, every other character
  that is not printable is written \<^verbatim>\<open>\xNN\<close>.
\<close>

definition squote :: char where "squote = CHR 0x27"
definition dquote :: char where "dquote = CHR 0x22"
definition backslash :: char where "backslash = CHR 0x5C"
definition newline :: char where "newline = CHR 0x0A"

definition hex2 :: "char \<Rightarrow> string" where
  "hex2 c = [''0123456789abcdef'' ! ((of_char c :: nat) div 16),
             ''0123456789abcdef'' ! ((of_char c :: nat) mod 16)]"

definition repr_quote :: "string \<Rightarrow> char" where
  "repr_quote s = (if squote \<in> set s \<and> dquote \<notin> set s then dquote else squote)"

definition repr_char :: "char \<Rightarrow> char \<Rightarrow> string" where
  "repr_char q c =
     (let n = (of_char c :: nat) in
      if c = q \<or> c = backslash then [backslash, c]
      else if n = 9 then [backslash, CHR ''t'']
      else if n = 10 then [backslash, CHR ''n'']
      else if n = 13 then [backslash, CHR ''r'']
      else if n < 32 \<or> n = 127 then backslash # CHR ''x'' # hex2 c
      else if n < 127 then [c]
      else if n \<le> 160 \<or> n = 173 then backslash # CHR ''x'' # hex2 c
      else [c])"

definition repr_str :: "string \<Rightarrow> string" where
  "repr_str s = (let q = repr_quote s in q # concat (map (repr_char q) s) @ [q])"

text \<open>\<^verbatim>\<open>repr\<close> of a value; a list is written with brackets, its items by \<^verbatim>\<open>repr\<close>.\<close>

fun py_repr :: "pyval \<Rightarrow> string" where
  "py_repr (PStr s) = repr_str s"
| "py_repr (PList xs) = ''['' @ join_str '', '' (map py_repr xs) @ '']''"

text \<open>\<^verbatim>\<open>str\<close>: a string is itself, a list is its \<^verbatim>\<open>repr\<close>.\<close>

fun py_str :: "pyval \<Rightarrow> string" where
  "py_str (PStr s) = s"
| "py_str (PList xs) = py_repr (PList xs)"

text \<open>Iterating a value: a list yields its items, a string its characters.\<close>

fun py_iter :: "pyval \<Rightarrow> pyval list" where
  "py_iter (PList xs) = xs"
| "py_iter (PStr s) = map (\<lambda>c. PStr [c]) s"

text \<open>
  \<^verbatim>\<open>print(a, b, ...)\<close>: the arguments' strings separated by one space, then a newline,
  appended to standard output.
\<close>

definition print :: "string list \<Rightarrow> string \<Rightarrow> string" where
  "print args out = out @ join_str '' '' args @ [newline]"

section \<open>The two metric libraries\<close>

text \<open>
  \<^verbatim>\<open>torchmetrics.text.BLEUScore\<close> and \<^verbatim>\<open>rouge.Rouge\<close> are third-party code: the
  script constructs one object of each and calls it once. They are parameters of the
  model. A call returns a score, raises, or does not return.
\<close>

datatype error = NameError string | MetricError string

datatype 'a outcome = Returned 'a | Raised error | Diverged

record ('bs, 'b, 'rs, 'r) metrics =
  BLEUScore :: 'bs
  bleu_call :: "'bs \<Rightarrow> pyval \<Rightarrow> pyval \<Rightarrow> 'b outcome"
  Rouge :: 'rs
  get_scores :: "'rs \<Rightarrow> string \<Rightarrow> string \<Rightarrow> 'r outcome"
  str_bleu :: "'b \<Rightarrow> string"
  str_rouge :: "'r \<Rightarrow> string"

section \<open>The evaluator\<close>

text \<open>\<^verbatim>\<open>' '.join(map(str, xs))\<close>, the expression of lines 7 and 8.\<close>

definition str_join :: "pyval \<Rightarrow> string" where
  "str_join xs = join_str '' '' (map py_str (py_iter xs))"

text \<open>
  \<^verbatim>\<open>Evaluate_text(pred, target_ref)\<close>, lines 4 to 14. Standard output is passed in and
  returned. The function has no \<^verbatim>\<open>try\<close>: what a scorer raises leaves the function.
\<close>

definition Evaluate_text ::
  "('bs, 'b, 'rs, 'r) metrics \<Rightarrow> pyval \<Rightarrow> pyval \<Rightarrow> string \<Rightarrow> ('b \<times> 'r) outcome \<times> string" where
  "Evaluate_text L pred target_ref out =
     (let bleu = BLEUScore L;
          rouge = Rouge L;
          str_pred = str_join pred;
          str_target = str_join target_ref
      in case get_scores L rouge str_pred str_target of
           Diverged \<Rightarrow> (Diverged, out)
         | Raised e \<Rightarrow> (Raised e, out)
         | Returned rouge_score \<Rightarrow>
             (case bleu_call L bleu pred target_ref of
                Diverged \<Rightarrow> (Diverged, out)
              | Raised e \<Rightarrow> (Raised e, out)
              | Returned bleu_score \<Rightarrow>
                  (let out1 = print [''Bleu score : '', str_bleu L bleu_score] out;
                       out2 = print [''Rouge score : ''] out1;
                       out3 = print [str_rouge L rouge_score] out2
                   in (Returned (bleu_score, rouge_score), out3))))"

section \<open>The script\<close>

text \<open>
  The module's top level, lines 1 to 17: three imports, the definition of
  \<^verbatim>\<open>Evaluate_text\<close>, two assignments and one call whose value is dropped. The imports
  are taken to succeed; they and the \<^verbatim>\<open>def\<close> bind names that hold no value of the
  model and write nothing.
\<close>

datatype stmt =
    Import string
  | Def string
  | Assign string pyval
  | CallEvaluate string string

record state =
  env :: "string \<rightharpoonup> pyval"
  stdout :: string

definition preds :: pyval where
  "preds = PList [PStr ''the cat is on the mat'']"

definition target :: pyval where
  "target = PList [PList [PStr ''there is a cat on the mat'', PStr ''a cat is on the mat'']]"

definition script :: "stmt list" where
  "script =
     [Import ''numpy'',
      Import ''torchmetrics.text'',
      Import ''rouge'',
      Def ''Evaluate_text'',
      Assign ''preds'' preds,
      Assign ''target'' target,
      CallEvaluate ''preds'' ''target'']"

definition initial :: state where
  "initial = \<lparr>env = Map.empty, stdout = []\<rparr>"

fun discard :: "'a outcome \<Rightarrow> unit outcome" where
  "discard (Returned v) = Returned ()"
| "discard (Raised e) = Raised e"
| "discard Diverged = Diverged"

fun exec_stmt :: "('bs, 'b, 'rs, 'r) metrics \<Rightarrow> stmt \<Rightarrow> state \<Rightarrow> unit outcome \<times> state" where
  "exec_stmt L (Import m) st = (Returned (), st)"
| "exec_stmt L (Def f) st = (Returned (), st)"
| "exec_stmt L (Assign x v) st = (Returned (), st\<lparr>env := (env st)(x \<mapsto> v)\<rparr>)"
| "exec_stmt L (CallEvaluate a b) st =
     (case env st a of
        None \<Rightarrow> (Raised (NameError a), st)
      | Some p \<Rightarrow>
          (case env st b of
             None \<Rightarrow> (Raised (NameError b), st)
           | Some t \<Rightarrow>
               (case Evaluate_text L p t (stdout st) of
                  (r, out') \<Rightarrow> (discard r, st\<lparr>stdout := out'\<rparr>))))"

text \<open>Statements run in order, each once; the first that does not return ends the run.\<close>

fun exec_stmts :: "('bs, 'b, 'rs, 'r) metrics \<Rightarrow> stmt list \<Rightarrow> state \<Rightarrow> unit outcome \<times> state" where
  "exec_stmts L [] st = (Returned (), st)"
| "exec_stmts L (s # ss) st =
     (case exec_stmt L s st of
        (Returned u, st') \<Rightarrow> exec_stmts L ss st'
      | (r, st') \<Rightarrow> (r, st'))"

fun is_call :: "stmt \<Rightarrow> bool" where
  "is_call (CallEvaluate a b) = True"
| "is_call s = False"

section \<open>Two concrete libraries for running the model\<close>

text \<open>
  \<open>recorder\<close> returns to each scorer's caller the arguments the scorer was given, so
  that a run shows what the evaluator handed over. \<open>strict\<close> is the same, but its
  ROUGE scorer raises on an empty hypothesis string.
\<close>

definition recorder :: "(unit, pyval \<times> pyval, unit, string \<times> string) metrics" where
  "recorder =
     \<lparr>BLEUScore = (),
      bleu_call = (\<lambda>_ p t. Returned (p, t)),
      Rouge = (),
      get_scores = (\<lambda>_ h r. Returned (h, r)),
      str_bleu = (\<lambda>x. ''bleu''),
      str_rouge = (\<lambda>x. snd x)\<rparr>"

definition strict :: "(unit, pyval \<times> pyval, unit, string \<times> string) metrics" where
  "strict =
     recorder\<lparr>get_scores :=
       (\<lambda>_ h r. if h = [] then Raised (MetricError ''Hypothesis is empty.'')
                else Returned (h, r))\<rparr>"

section \<open>Joining and \<^verbatim>\<open>repr\<close>\<close>

lemmas repr_defs =
  repr_str_def repr_quote_def repr_char_def hex2_def squote_def dquote_def backslash_def Let_def

text \<open>On a flat list of strings the join is the space-join of the strings themselves.\<close>

lemma str_join_flat: "str_join (PList (map PStr ws)) = join_str '' '' ws"
  by (simp add: str_join_def comp_def)

lemma length_repr_char: "1 \<le> length (repr_char q c)"
  by (simp add: repr_char_def hex2_def Let_def)

lemma length_concat_repr: "length s \<le> length (concat (map (repr_char q) s))"
proof (induction s)
  case Nil
  show ?case by simp
next
  case (Cons c s)
  have "1 \<le> length (repr_char q c)" by (rule length_repr_char)
  with Cons show ?case by simp
qed

lemma length_repr_str: "length s + 2 \<le> length (repr_str s)"
  using length_concat_repr [of s "repr_quote s"] by (simp add: repr_str_def Let_def)

text \<open>
  A prediction \<^verbatim>\<open>[s]\<close> and the reference collection \<^verbatim>\<open>[[s]]\<close> holding the same sentence
  are joined to different strings: the reference side is the inner list's \<^verbatim>\<open>repr\<close>.
\<close>

lemma str_join_identical_differ:
  "str_join (PList [PStr s]) = s \<and> str_join (PList [PList [PStr s]]) \<noteq> s"
proof -
  have same: "str_join (PList [PStr s]) = s"
    by (simp add: str_join_def)
  have "length (str_join (PList [PList [PStr s]])) = length (repr_str s) + 2"
    by (simp add: str_join_def)
  with length_repr_str [of s] have "length s < length (str_join (PList [PList [PStr s]]))"
    by simp
  then have "str_join (PList [PList [PStr s]]) \<noteq> s"
    by auto
  with same show ?thesis by simp
qed

lemma str_join_target:
  "str_join target =
     ''['' @ [squote] @ ''there is a cat on the mat'' @ [squote] @ '', '' @
     [squote] @ ''a cat is on the mat'' @ [squote] @ '']''"
  by (simp add: str_join_def target_def repr_defs)

lemma str_join_preds: "str_join preds = ''the cat is on the mat''"
  by (simp add: str_join_def preds_def)

section \<open>The evaluator's control flow\<close>

lemma Evaluate_text_rouge_raised:
  "get_scores L (Rouge L) (str_join pred) (str_join target_ref) = Raised e \<Longrightarrow>
   Evaluate_text L pred target_ref out = (Raised e, out)"
  by (simp add: Evaluate_text_def)

lemma Evaluate_text_rouge_Diverged:
  "get_scores L (Rouge L) (str_join pred) (str_join target_ref) = Diverged \<Longrightarrow>
   Evaluate_text L pred target_ref out = (Diverged, out)"
  by (simp add: Evaluate_text_def)

lemma Evaluate_text_bleu_raised:
  "get_scores L (Rouge L) (str_join pred) (str_join target_ref) = Returned r \<Longrightarrow>
   bleu_call L (BLEUScore L) pred target_ref = Raised e \<Longrightarrow>
   Evaluate_text L pred target_ref out = (Raised e, out)"
  by (simp add: Evaluate_text_def)

lemma Evaluate_text_Returned:
  "Evaluate_text L pred target_ref out = (Returned (b, r), out') \<longleftrightarrow>
     get_scores L (Rouge L) (str_join pred) (str_join target_ref) = Returned r \<and>
     bleu_call L (BLEUScore L) pred target_ref = Returned b \<and>
     out' = print [str_rouge L r] (print [''Rouge score : '']
              (print [''Bleu score : '', str_bleu L b] out))"
  by (auto simp: Evaluate_text_def Let_def split: outcome.splits)

lemma discard_Diverged: "discard r = Diverged \<longleftrightarrow> r = Diverged"
  by (cases r) simp_all

lemma exec_script:
  "exec_stmts L script initial =
     (discard (fst (Evaluate_text L preds target [])),
      \<lparr>env = [''preds'' \<mapsto> preds, ''target'' \<mapsto> target],
       stdout = snd (Evaluate_text L preds target [])\<rparr>)"
proof (cases "Evaluate_text L preds target []")
  case (Pair r out')
  then show ?thesis
    by (cases r) (simp_all add: script_def initial_def)
qed

section \<open>The claims\<close>

text \<open>
  C1 says that the reference string handed to the ROUGE scorer is the space-join of
  the reference text. On the script's own input it is not: \<^verbatim>\<open>map(str, target_ref)\<close>
  applies \<^verbatim>\<open>str\<close> to the inner list, so the scorer receives the list's \<^verbatim>\<open>repr\<close>, with
  its brackets, quotes and comma, while the prediction side is the plain sentence.
\<close>

theorem rouge_reference_is_list_repr:
  "fst (Evaluate_text recorder preds target []) =
     Returned ((preds, target),
       (''the cat is on the mat'',
        ''['' @ [squote] @ ''there is a cat on the mat'' @ [squote] @ '', '' @
        [squote] @ ''a cat is on the mat'' @ [squote] @ '']''))
   \<and> str_join target \<noteq> ''there is a cat on the mat a cat is on the mat''"
  by (simp add: Evaluate_text_def recorder_def str_join_target str_join_preds Let_def squote_def)

text \<open>
  C2 says that a prediction identical to the single reference gets a ROUGE F1 of 1.0.
  For the prediction \<^verbatim>\<open>[s]\<close> and the reference collection \<^verbatim>\<open>[[s]]\<close> the evaluator does
  not hand the ROUGE scorer two identical texts: whatever the library, the score the
  call returns is the one ROUGE gave to the hypothesis \<^verbatim>\<open>s\<close> against the bracketed,
  quoted \<^verbatim>\<open>repr\<close> of the list holding \<^verbatim>\<open>s\<close>, a different string.
\<close>

theorem Evaluate_text_identical_reference:
  assumes "Evaluate_text L (PList [PStr s]) (PList [PList [PStr s]]) out = (Returned (b, r), out')"
  shows "get_scores L (Rouge L) s (''['' @ repr_str s @ '']'') = Returned r \<and>
         ''['' @ repr_str s @ '']'' \<noteq> s"
proof -
  have pred: "str_join (PList [PStr s]) = s"
    by (simp add: str_join_def)
  have ref: "str_join (PList [PList [PStr s]]) = ''['' @ repr_str s @ '']''"
    by (simp add: str_join_def)
  from assms have "get_scores L (Rouge L) s (''['' @ repr_str s @ '']'') = Returned r"
    by (simp add: Evaluate_text_Returned pred ref)
  moreover have "''['' @ repr_str s @ '']'' \<noteq> s"
  proof
    assume "''['' @ repr_str s @ '']'' = s"
    then have "length (''['' @ repr_str s @ '']'') = length s"
      by (rule arg_cong)
    then have "length (repr_str s) + 2 = length s"
      by simp
    with length_repr_str [of s] show False
      by simp
  qed
  ultimately show ?thesis by simp
qed

theorem Evaluate_text_identical_reference_witness:
  "fst (Evaluate_text recorder (PList [PStr ''the cat is on the mat''])
          (PList [PList [PStr ''the cat is on the mat'']]) []) =
     Returned ((PList [PStr ''the cat is on the mat''],
                PList [PList [PStr ''the cat is on the mat'']]),
               (''the cat is on the mat'',
                ''['' @ [squote] @ ''the cat is on the mat'' @ [squote] @ '']'')) \<and>
   get_scores recorder (Rouge recorder) ''the cat is on the mat''
       (''['' @ repr_str ''the cat is on the mat'' @ '']'') =
     Returned (''the cat is on the mat'',
               ''['' @ [squote] @ ''the cat is on the mat'' @ [squote] @ '']'') \<and>
   ''['' @ repr_str ''the cat is on the mat'' @ '']'' \<noteq> ''the cat is on the mat''"
proof -
  have f: "fst (Evaluate_text recorder (PList [PStr ''the cat is on the mat''])
          (PList [PList [PStr ''the cat is on the mat'']]) []) =
     Returned ((PList [PStr ''the cat is on the mat''],
                PList [PList [PStr ''the cat is on the mat'']]),
               (''the cat is on the mat'',
                ''['' @ [squote] @ ''the cat is on the mat'' @ [squote] @ '']''))"
    by (simp add: Evaluate_text_def recorder_def str_join_def repr_defs)
  then have h: "Evaluate_text recorder (PList [PStr ''the cat is on the mat''])
          (PList [PList [PStr ''the cat is on the mat'']]) [] =
     (Returned ((PList [PStr ''the cat is on the mat''],
                 PList [PList [PStr ''the cat is on the mat'']]),
                (''the cat is on the mat'',
                 ''['' @ [squote] @ ''the cat is on the mat'' @ [squote] @ '']'')),
      snd (Evaluate_text recorder (PList [PStr ''the cat is on the mat''])
          (PList [PList [PStr ''the cat is on the mat'']]) []))"
    by (simp only: prod_eq_iff fst_conv snd_conv simp_thms)
  from Evaluate_text_identical_reference [OF h] f show ?thesis
    by blast
qed

text \<open>
  C5: a call with an empty prediction (the empty list, the empty string, or the list
  holding the empty string) hands the ROUGE scorer the empty string; when the scorer
  raises there, as the specification says the library does, the error leaves
  \<open>Evaluate_text\<close> unhandled with standard output untouched, and a script that makes
  the call ends with that error without running any later statement.
\<close>

theorem Evaluate_text_empty_prediction:
  assumes "pred = PList [] \<or> pred = PStr [] \<or> pred = PList [PStr []]"
    and "get_scores L (Rouge L) [] (str_join target_ref) = Raised e"
    and "env st a = Some pred" and "env st b = Some target_ref"
  shows "str_join pred = [] \<and>
         Evaluate_text L pred target_ref out = (Raised e, out) \<and>
         exec_stmts L (CallEvaluate a b # rest) st = (Raised e, st)"
proof -
  from assms(1) have empty: "str_join pred = []"
    by (auto simp: str_join_def)
  with assms(2) have call: "Evaluate_text L pred target_ref out' = (Raised e, out')" for out'
    by (simp add: Evaluate_text_rouge_raised)
  from call [of "stdout st"] assms(3,4)
  have "exec_stmts L (CallEvaluate a b # rest) st = (Raised e, st)"
    by simp
  with empty call show ?thesis by simp
qed

theorem Evaluate_text_empty_prediction_witness:
  "(PList [] = PList [] \<or> PList [] = PStr [] \<or> PList [] = PList [PStr []]) \<and>
   get_scores strict (Rouge strict) [] (str_join target) =
     Raised (MetricError ''Hypothesis is empty.'') \<and>
   env \<lparr>env = [''p'' \<mapsto> PList [], ''t'' \<mapsto> target], stdout = ''x''\<rparr> ''p'' = Some (PList []) \<and>
   env \<lparr>env = [''p'' \<mapsto> PList [], ''t'' \<mapsto> target], stdout = ''x''\<rparr> ''t'' = Some target \<and>
   str_join (PList []) = [] \<and>
   Evaluate_text strict (PList []) target ''x'' =
     (Raised (MetricError ''Hypothesis is empty.''), ''x'') \<and>
   exec_stmts strict [CallEvaluate ''p'' ''t'', Assign ''q'' preds]
      \<lparr>env = [''p'' \<mapsto> PList [], ''t'' \<mapsto> target], stdout = ''x''\<rparr> =
     (Raised (MetricError ''Hypothesis is empty.''),
      \<lparr>env = [''p'' \<mapsto> PList [], ''t'' \<mapsto> target], stdout = ''x''\<rparr>)"
proof -
  have h1: "PList [] = PList [] \<or> PList [] = PStr [] \<or> PList [] = PList [PStr []]"
    by simp
  have h2: "get_scores strict (Rouge strict) [] (str_join target) =
      Raised (MetricError ''Hypothesis is empty.'')"
    by (simp add: strict_def)
  have h3: "env \<lparr>env = [''p'' \<mapsto> PList [], ''t'' \<mapsto> target], stdout = ''x''\<rparr> ''p'' =
      Some (PList [])"
    by simp
  have h4: "env \<lparr>env = [''p'' \<mapsto> PList [], ''t'' \<mapsto> target], stdout = ''x''\<rparr> ''t'' =
      Some target"
    by simp
  from Evaluate_text_empty_prediction [OF h1 h2 h3 h4, of "''x''" "[Assign ''q'' preds]"]
    h1 h2 h3 h4
  show ?thesis by blast
qed

text \<open>
  C6: a call that returns has appended to standard output exactly two sections: the
  line labelled \<^verbatim>\<open>Bleu score : \<close> carrying the BLEU score, then the line labelled
  \<^verbatim>\<open>Rouge score : \<close> followed by the line carrying the ROUGE structure.
\<close>

theorem Evaluate_text_prints_two_sections:
  assumes "Evaluate_text L pred target_ref out = (Returned (b, r), out')"
  shows "out' = out @ (''Bleu score : '' @ '' '' @ str_bleu L b @ [newline])
                    @ (''Rouge score : '' @ [newline] @ str_rouge L r @ [newline])"
  using assms by (simp add: Evaluate_text_Returned print_def)

theorem Evaluate_text_prints_two_sections_witness:
  "Evaluate_text recorder preds target ''>'' =
     (Returned ((preds, target), (str_join preds, str_join target)),
      ''>'' @ ''Bleu score :  bleu'' @ [newline] @ ''Rouge score : '' @ [newline] @
        str_join target @ [newline])
   \<and> ''>'' @ ''Bleu score :  bleu'' @ [newline] @ ''Rouge score : '' @ [newline] @
        str_join target @ [newline] =
     ''>'' @ (''Bleu score : '' @ '' '' @ str_bleu recorder (preds, target) @ [newline])
          @ (''Rouge score : '' @ [newline] @
             str_rouge recorder (str_join preds, str_join target) @ [newline])"
proof -
  have h: "Evaluate_text recorder preds target ''>'' =
     (Returned ((preds, target), (str_join preds, str_join target)),
      ''>'' @ ''Bleu score :  bleu'' @ [newline] @ ''Rouge score : '' @ [newline] @
        str_join target @ [newline])"
    by (simp add: Evaluate_text_def recorder_def print_def Let_def)
  from Evaluate_text_prints_two_sections [OF h] h show ?thesis by simp
qed

text \<open>
  C7: a call that returns gives back a pair whose first component is what the BLEU
  scorer returned on the two arguments as passed, and whose second component is what
  the ROUGE scorer returned on the two joined strings.
\<close>

theorem Evaluate_text_returns_pair:
  assumes "fst (Evaluate_text L pred target_ref out) = Returned res"
  shows "bleu_call L (BLEUScore L) pred target_ref = Returned (fst res) \<and>
         get_scores L (Rouge L) (str_join pred) (str_join target_ref) = Returned (snd res)"
  using assms by (auto simp: Evaluate_text_def Let_def split: outcome.splits)

theorem Evaluate_text_returns_pair_witness:
  "fst (Evaluate_text recorder preds target []) =
     Returned ((preds, target), (str_join preds, str_join target)) \<and>
   bleu_call recorder (BLEUScore recorder) preds target = Returned (preds, target) \<and>
   get_scores recorder (Rouge recorder) (str_join preds) (str_join target) =
     Returned (str_join preds, str_join target)"
proof -
  have h: "fst (Evaluate_text recorder preds target []) =
     Returned ((preds, target), (str_join preds, str_join target))"
    by (simp add: Evaluate_text_def recorder_def Let_def)
  from Evaluate_text_returns_pair [OF h] h show ?thesis by simp
qed

text \<open>
  C8: the script holds exactly one evaluation call; run from the empty state it does
  what that one call on the hardcoded prediction and references does, starting from
  empty standard output, and nothing else; if the call does not diverge, neither
  does the script.
\<close>

theorem script_single_evaluation:
  "length (filter is_call script) = 1 \<and>
   exec_stmts L script initial =
     (discard (fst (Evaluate_text L preds target [])),
      \<lparr>env = [''preds'' \<mapsto> preds, ''target'' \<mapsto> target],
       stdout = snd (Evaluate_text L preds target [])\<rparr>) \<and>
   (fst (Evaluate_text L preds target []) \<noteq> Diverged \<longrightarrow>
    fst (exec_stmts L script initial) \<noteq> Diverged)"
proof -
  have one: "length (filter is_call script) = 1"
    by (simp add: script_def)
  have "fst (exec_stmts L script initial) = discard (fst (Evaluate_text L preds target []))"
    by (simp add: exec_script)
  then have "fst (Evaluate_text L preds target []) \<noteq> Diverged \<longrightarrow>
    fst (exec_stmts L script initial) \<noteq> Diverged"
    by (simp add: discard_Diverged)
  with one exec_script [of L] show ?thesis by blast
qed

theorem script_single_evaluation_witness:
  "fst (Evaluate_text recorder preds target []) \<noteq> Diverged \<and>
   fst (exec_stmts recorder script initial) = Returned () \<and>
   length (filter is_call script) = 1"
proof -
  have h: "fst (Evaluate_text recorder preds target []) \<noteq> Diverged"
    by (simp add: Evaluate_text_def recorder_def Let_def)
  from script_single_evaluation [of recorder] h
  have "fst (exec_stmts recorder script initial) \<noteq> Diverged"
    and "length (filter is_call script) = 1"
    and "exec_stmts recorder script initial =
     (discard (fst (Evaluate_text recorder preds target [])),
      \<lparr>env = [''preds'' \<mapsto> preds, ''target'' \<mapsto> target],
       stdout = snd (Evaluate_text recorder preds target [])\<rparr>)"
    by blast+
  moreover have "discard (fst (Evaluate_text recorder preds target [])) = Returned ()"
    by (simp add: Evaluate_text_def recorder_def Let_def)
  ultimately show ?thesis using h by simp
qed

text \<open>
  C9: the ROUGE scorer runs before the BLEU scorer and before any printing. When it
  raises, the call ends with that error and standard output as it was, whatever the
  BLEU scorer would have done, even not returning: the BLEU scorer is never reached.
\<close>

theorem Evaluate_text_rouge_first:
  assumes "get_scores L (Rouge L) (str_join pred) (str_join target_ref) = Raised e"
  shows "Evaluate_text (L\<lparr>bleu_call := B\<rparr>) pred target_ref out = (Raised e, out)"
  using assms by (simp add: Evaluate_text_def)

theorem Evaluate_text_rouge_first_witness:
  "get_scores strict (Rouge strict) (str_join (PList [])) (str_join target) =
     Raised (MetricError ''Hypothesis is empty.'') \<and>
   Evaluate_text (strict\<lparr>bleu_call := (\<lambda>_ _ _. Diverged)\<rparr>) (PList []) target ''x'' =
     (Raised (MetricError ''Hypothesis is empty.''), ''x'')"
proof -
  have h: "get_scores strict (Rouge strict) (str_join (PList [])) (str_join target) =
     Raised (MetricError ''Hypothesis is empty.'')"
    by (simp add: strict_def str_join_def)
  from Evaluate_text_rouge_first [OF h, of "\<lambda>_ _ _. Diverged" "''x''"] h show ?thesis
    by simp
qed

end
